theory Spec2Isabelle
  imports Complex_Main
begin

section \<open>Data model of \<^verbatim>\<open>python/tts_server.py\<close>\<close>

text \<open>
  The model registry of the TTS HTTP server, embedded shallowly. Python objects are
  mutable and shared by reference, so the embedding keeps an explicit object store:
  the dictionary \<^verbatim>\<open>self._models\<close> maps a model identifier to a reference, and the
  store maps a reference to the \<^verbatim>\<open>ModelInfo\<close> object it denotes. Every
  \<^verbatim>\<open>with self._lock:\<close> block of the source is one function on the world (an atomic
  section); an operation is the sequence of its sections, so the worlds between two
  sections are the points at which the lock is free. Calls into the environment
  (memory sampling, the clock, the external loader, garbage collection, generation)
  are appended to a log, and what they return is a parameter of the operation.
  Logging through \<^verbatim>\<open>logger\<close> is left out. Python floats are read as reals.
\<close>

datatype ModelState = UNLOADED | LOADING | LOADED | UNLOADING | ERROR

text \<open>The object returned by the external \<^verbatim>\<open>load_model\<close>; the server reads its
  \<^verbatim>\<open>sample_rate\<close> attribute only.\<close>

record model_obj =
  sample_rate :: nat

record ModelInfo =
  model_id :: string
  state :: ModelState
  memory_before_mb :: "real option"
  memory_after_mb :: "real option"
  memory_delta_mb :: "real option"
  load_time_seconds :: "real option"
  error_message :: "string option"
  model_instance :: "model_obj option"

text \<open>Exceptions as values. \<open>OSError\<close> stands for the exceptions of the external
  loader that are not instances of \<^verbatim>\<open>RuntimeError\<close>.\<close>

datatype exn =
    RuntimeError string
  | ValueError string
  | KeyError string
  | AttributeError string
  | OSError string
  | HTTPException nat string

type_synonym ref = nat

type_synonym audio = "real list"

datatype event =
    GetMemoryMb real
  | TimeTime real
  | LoadModel string
  | GcCollect
  | MxClearCache
  | ModelGenerate string "(string \<times> string) list"
  | SaveAudio audio nat string

record world =
  models :: "(string \<times> ref) list"
  store :: "ref \<Rightarrow> ModelInfo"
  next_ref :: ref
  calls :: "event list"

section \<open>Objects and dictionaries\<close>

text \<open>\<^verbatim>\<open>ModelInfo(model_id=model_id)\<close>: the dataclass defaults.\<close>

definition ModelInfo_new :: "string \<Rightarrow> ModelInfo" where
  "ModelInfo_new mid =
     \<lparr>model_id = mid, state = UNLOADED, memory_before_mb = None, memory_after_mb = None,
      memory_delta_mb = None, load_time_seconds = None, error_message = None,
      model_instance = None\<rparr>"

definition alloc :: "ModelInfo \<Rightarrow> world \<Rightarrow> ref \<times> world" where
  "alloc info w =
     (next_ref w, w\<lparr>store := (store w)(next_ref w := info), next_ref := Suc (next_ref w)\<rparr>)"

definition update_info :: "ref \<Rightarrow> (ModelInfo \<Rightarrow> ModelInfo) \<Rightarrow> world \<Rightarrow> world" where
  "update_info r f w = w\<lparr>store := (store w)(r := f (store w r))\<rparr>"

definition call :: "event \<Rightarrow> world \<Rightarrow> world" where
  "call e w = w\<lparr>calls := calls w @ [e]\<rparr>"

text \<open>A Python dictionary keeps insertion order; assigning to a key that is present
  replaces its value in place.\<close>

fun dict_set :: "(string \<times> ref) list \<Rightarrow> string \<Rightarrow> ref \<Rightarrow> (string \<times> ref) list" where
  "dict_set [] k v = [(k, v)]"
| "dict_set ((k', v') # kvs) k v =
     (if k' = k then (k, v) # kvs else (k', v') # dict_set kvs k v)"

definition dict_contains :: "(string \<times> ref) list \<Rightarrow> string \<Rightarrow> bool" where
  "dict_contains kvs k = (map_of kvs k \<noteq> None)"

definition dict_getitem :: "(string \<times> ref) list \<Rightarrow> string \<Rightarrow> exn + ref" where
  "dict_getitem kvs k = (case map_of kvs k of None \<Rightarrow> Inl (KeyError k) | Some r \<Rightarrow> Inr r)"

section \<open>\<^verbatim>\<open>ModelRegistry\<close>\<close>

definition CLONE_MODELS :: "string list" where
  "CLONE_MODELS =
     [''mlx-community/Qwen3-TTS-12Hz-0.6B-Base-bf16'',
      ''mlx-community/Qwen3-TTS-12Hz-1.7B-Base-bf16'']"

definition CONTROL_MODELS :: "string list" where
  "CONTROL_MODELS =
     [''mlx-community/Qwen3-TTS-12Hz-0.6B-CustomVoice-bf16'',
      ''mlx-community/Qwen3-TTS-12Hz-1.7B-CustomVoice-bf16'']"

definition DESIGN_MODEL :: string where
  "DESIGN_MODEL = ''mlx-community/Qwen3-TTS-12Hz-1.7B-VoiceDesign-bf16''"

text \<open>\<^verbatim>\<open>self._models[model_id] = ModelInfo(model_id=model_id)\<close>\<close>

definition register :: "string \<Rightarrow> world \<Rightarrow> world" where
  "register mid w =
     (case alloc (ModelInfo_new mid) w of
        (r, w1) \<Rightarrow> w1\<lparr>models := dict_set (models w1) mid r\<rparr>)"

definition empty_world :: world where
  "empty_world = \<lparr>models = [], store = (\<lambda>_. ModelInfo_new []), next_ref = 0, calls = []\<rparr>"

text \<open>\<^verbatim>\<open>__init__\<close>: every catalog identifier gets a fresh record.\<close>

definition registry_init :: world where
  "registry_init =
     foldl (\<lambda>w mid. register mid w) empty_world (CLONE_MODELS @ CONTROL_MODELS @ [DESIGN_MODEL])"

text \<open>\<^verbatim>\<open>get_model\<close> returns what \<^verbatim>\<open>dict.get\<close> returns: the stored object itself (a
  reference) or \<^verbatim>\<open>None\<close>. \<^verbatim>\<open>get_all_models\<close> builds a new list of the stored objects.\<close>

definition get_model :: "string \<Rightarrow> world \<Rightarrow> ref option" where
  "get_model mid w = map_of (models w) mid"

definition get_all_models :: "world \<Rightarrow> ref list" where
  "get_all_models w = map snd (models w)"

subsection \<open>\<^verbatim>\<open>load_model\<close>\<close>

text \<open>What the environment answers during one \<^verbatim>\<open>load_model\<close>: the two memory samples,
  the two clock readings and the outcome of the external loader. The end time and the
  second memory sample are read on the success path only.\<close>

record load_env =
  load_memory_before :: real
  load_start_time :: real
  load_result :: "exn + model_obj"
  load_end_time :: real
  load_memory_after :: real

text \<open>\<^verbatim>\<open>if model_id not in self._models: self._models[model_id] = ModelInfo(...)\<close>\<close>

definition ensure_registered :: "string \<Rightarrow> world \<Rightarrow> world" where
  "ensure_registered mid w = (if \<not> dict_contains (models w) mid then register mid w else w)"

text \<open>First critical section. The flag of the result says whether the method returns
  at once (\<open>True\<close>) or goes on to load (\<open>False\<close>).\<close>

definition load_model_begin :: "string \<Rightarrow> world \<Rightarrow> (exn + bool \<times> ref) \<times> world" where
  "load_model_begin mid w =
     (let w1 = ensure_registered mid w in
      case dict_getitem (models w1) mid of
        Inl e \<Rightarrow> (Inl e, w1)
      | Inr r \<Rightarrow>
          if state (store w1 r) = LOADED then (Inr (True, r), w1)
          else if state (store w1 r) = LOADING then (Inr (True, r), w1)
          else (Inr (False, r),
                update_info r (\<lambda>info. info\<lparr>state := LOADING, error_message := None\<rparr>) w1))"

text \<open>The critical section of the \<^verbatim>\<open>try\<close> body.\<close>

definition load_model_loaded ::
  "string \<Rightarrow> model_obj \<Rightarrow> real \<Rightarrow> real \<Rightarrow> real \<Rightarrow> real \<Rightarrow> world \<Rightarrow> (exn + ref) \<times> world" where
  "load_model_loaded mid model memory_before memory_after memory_delta load_time w =
     (case dict_getitem (models w) mid of
        Inl e \<Rightarrow> (Inl e, w)
      | Inr r \<Rightarrow>
          (Inr r,
           update_info r
             (\<lambda>info. info\<lparr>state := LOADED, model_instance := Some model,
                memory_before_mb := Some memory_before, memory_after_mb := Some memory_after,
                memory_delta_mb := Some memory_delta, load_time_seconds := Some load_time\<rparr>) w))"

text \<open>The critical section of the \<^verbatim>\<open>except RuntimeError\<close> handler.\<close>

definition load_model_failed :: "string \<Rightarrow> string \<Rightarrow> world \<Rightarrow> (exn + ref) \<times> world" where
  "load_model_failed mid error_msg w =
     (case dict_getitem (models w) mid of
        Inl e \<Rightarrow> (Inl e, w)
      | Inr r \<Rightarrow>
          (Inr r, update_info r (\<lambda>info. info\<lparr>state := ERROR, error_message := Some error_msg\<rparr>) w))"

definition load_model :: "string \<Rightarrow> load_env \<Rightarrow> world \<Rightarrow> (exn + ref) \<times> world" where
  "load_model mid env w =
     (case load_model_begin mid w of
        (Inl e, w1) \<Rightarrow> (Inl e, w1)
      | (Inr (True, r), w1) \<Rightarrow> (Inr r, w1)
      | (Inr (False, r), w1) \<Rightarrow>
          let memory_before = load_memory_before env;
              w2 = call (GetMemoryMb memory_before) w1;
              start_time = load_start_time env;
              w3 = call (TimeTime start_time) w2;
              w4 = call (LoadModel mid) w3
          in (case load_result env of
                Inr model \<Rightarrow>
                  let w5 = call (TimeTime (load_end_time env)) w4;
                      load_time = load_end_time env - start_time;
                      memory_after = load_memory_after env;
                      w6 = call (GetMemoryMb memory_after) w5;
                      memory_delta = memory_after - memory_before
                  in load_model_loaded mid model memory_before memory_after memory_delta
                       load_time w6
              | Inl (RuntimeError error_msg) \<Rightarrow>
                  (case load_model_failed mid error_msg w4 of
                     (Inl e', w5) \<Rightarrow> (Inl e', w5)
                   | (Inr r', w5) \<Rightarrow> (Inl (RuntimeError error_msg), w5))
              | Inl e \<Rightarrow> (Inl e, w4)))"

subsection \<open>\<^verbatim>\<open>unload_model\<close>\<close>

text \<open>What the environment answers during one \<^verbatim>\<open>unload_model\<close>: the two memory
  samples. The import of \<^verbatim>\<open>mlx.core\<close>, \<^verbatim>\<open>gc.collect()\<close> and \<^verbatim>\<open>mx.clear_cache()\<close> are
  taken to return; the source has no handler around them.\<close>

record unload_env =
  unload_memory_before :: real
  unload_memory_after :: real

text \<open>The three critical sections of \<^verbatim>\<open>unload_model\<close>: the guard with the move to
  \<open>UNLOADING\<close>, the clearing of the instance, and the final record.\<close>

definition unload_model_begin :: "string \<Rightarrow> world \<Rightarrow> (exn + bool \<times> ref) \<times> world" where
  "unload_model_begin mid w =
     (if \<not> dict_contains (models w) mid then (Inl (ValueError (''Unknown model: '' @ mid)), w)
      else case dict_getitem (models w) mid of
        Inl e \<Rightarrow> (Inl e, w)
      | Inr r \<Rightarrow>
          if state (store w r) \<noteq> LOADED then (Inr (True, r), w)
          else (Inr (False, r), update_info r (\<lambda>info. info\<lparr>state := UNLOADING\<rparr>) w))"

definition unload_model_clear :: "string \<Rightarrow> world \<Rightarrow> (exn + ref) \<times> world" where
  "unload_model_clear mid w =
     (case dict_getitem (models w) mid of
        Inl e \<Rightarrow> (Inl e, w)
      | Inr r \<Rightarrow> (Inr r, update_info r (\<lambda>info. info\<lparr>model_instance := None\<rparr>) w))"

definition unload_model_done ::
  "string \<Rightarrow> real \<Rightarrow> real \<Rightarrow> real \<Rightarrow> world \<Rightarrow> (exn + ref) \<times> world" where
  "unload_model_done mid memory_before memory_after memory_delta w =
     (case dict_getitem (models w) mid of
        Inl e \<Rightarrow> (Inl e, w)
      | Inr r \<Rightarrow>
          (Inr r,
           update_info r
             (\<lambda>info. info\<lparr>state := UNLOADED, memory_before_mb := Some memory_before,
                memory_after_mb := Some memory_after, memory_delta_mb := Some memory_delta\<rparr>) w))"

definition unload_model :: "string \<Rightarrow> unload_env \<Rightarrow> world \<Rightarrow> (exn + ref) \<times> world" where
  "unload_model mid env w =
     (case unload_model_begin mid w of
        (Inl e, w1) \<Rightarrow> (Inl e, w1)
      | (Inr (True, r), w1) \<Rightarrow> (Inr r, w1)
      | (Inr (False, r), w1) \<Rightarrow>
          let memory_before = unload_memory_before env;
              w2 = call (GetMemoryMb memory_before) w1
          in (case unload_model_clear mid w2 of
                (Inl e, w3) \<Rightarrow> (Inl e, w3)
              | (Inr r', w3) \<Rightarrow>
                  let w4 = call GcCollect w3;
                      w5 = call MxClearCache w4;
                      memory_after = unload_memory_after env;
                      w6 = call (GetMemoryMb memory_after) w5;
                      memory_delta = memory_after - memory_before
                  in unload_model_done mid memory_before memory_after memory_delta w6))"

section \<open>Generation endpoints\<close>

record GenerateCloneRequest =
  clone_model_id :: string
  clone_text :: string
  clone_ref_audio_path :: string
  clone_ref_text :: "string option"
  clone_output_path :: string

record GenerateControlRequest =
  control_model_id :: string
  control_text :: string
  control_speaker :: string
  control_language :: string
  control_instruct :: "string option"
  control_output_path :: string

record GenerateDesignRequest =
  design_text :: string
  design_language :: string
  design_instruct :: string
  design_output_path :: string

record GenerateResponse =
  resp_output_path :: string
  resp_success :: bool
  resp_error :: "string option"

text \<open>\<^verbatim>\<open>if request.ref_text: kwargs["ref_text"] = request.ref_text\<close>: \<^verbatim>\<open>None\<close> and the
  empty string are false.\<close>

definition optional_kwarg :: "string \<Rightarrow> string option \<Rightarrow> (string \<times> string) list" where
  "optional_kwarg key v =
     (case v of None \<Rightarrow> [] | Some s \<Rightarrow> if s = [] then [] else [(key, s)])"

text \<open>The part the three endpoints share after their guard: read \<^verbatim>\<open>sample_rate\<close> from
  the instance (an \<^verbatim>\<open>AttributeError\<close> on \<^verbatim>\<open>None\<close>), call the generator method, fail
  on an empty result, save the first result. \<open>gen\<close> is what the external generator
  answers.\<close>

definition run_generation ::
  "model_obj option \<Rightarrow> string \<Rightarrow> (string \<times> string) list \<Rightarrow> string \<Rightarrow> (exn + audio list) \<Rightarrow>
     world \<Rightarrow> (exn + GenerateResponse) \<times> world" where
  "run_generation inst method kwargs out gen w =
     (case inst of
        None \<Rightarrow> (Inl (AttributeError ''sample_rate''), w)
      | Some model \<Rightarrow>
          let w1 = call (ModelGenerate method kwargs) w in
          (case gen of
             Inl e \<Rightarrow> (Inl e, w1)
           | Inr [] \<Rightarrow> (Inl (RuntimeError ''No audio generated''), w1)
           | Inr (a # rest) \<Rightarrow>
               (Inr \<lparr>resp_output_path = out, resp_success = True, resp_error = None\<rparr>,
                call (SaveAudio a (sample_rate model) out) w1)))"

text \<open>\<^verbatim>\<open>if not info or info.state != ModelState.LOADED: raise HTTPException(400, ...)\<close>.
  A \<^verbatim>\<open>ModelInfo\<close> object is always true, so \<^verbatim>\<open>not info\<close> holds for \<^verbatim>\<open>None\<close> only.\<close>

definition generate_clone ::
  "GenerateCloneRequest \<Rightarrow> (exn + audio list) \<Rightarrow> world \<Rightarrow> (exn + GenerateResponse) \<times> world" where
  "generate_clone request gen w =
     (case get_model (clone_model_id request) w of
        None \<Rightarrow>
          (Inl (HTTPException 400 (''Model '' @ clone_model_id request @ '' not loaded'')), w)
      | Some info \<Rightarrow>
          if state (store w info) \<noteq> LOADED
          then (Inl (HTTPException 400 (''Model '' @ clone_model_id request @ '' not loaded'')), w)
          else run_generation (model_instance (store w info)) ''generate''
                 ([(''text'', clone_text request), (''ref_audio'', clone_ref_audio_path request)]
                  @ optional_kwarg ''ref_text'' (clone_ref_text request))
                 (clone_output_path request) gen w)"

definition generate_control ::
  "GenerateControlRequest \<Rightarrow> (exn + audio list) \<Rightarrow> world \<Rightarrow> (exn + GenerateResponse) \<times> world" where
  "generate_control request gen w =
     (case get_model (control_model_id request) w of
        None \<Rightarrow>
          (Inl (HTTPException 400 (''Model '' @ control_model_id request @ '' not loaded'')), w)
      | Some info \<Rightarrow>
          if state (store w info) \<noteq> LOADED
          then (Inl (HTTPException 400 (''Model '' @ control_model_id request @ '' not loaded'')), w)
          else run_generation (model_instance (store w info)) ''generate_custom_voice''
                 ([(''text'', control_text request), (''speaker'', control_speaker request),
                   (''language'', control_language request)]
                  @ optional_kwarg ''instruct'' (control_instruct request))
                 (control_output_path request) gen w)"

definition generate_design ::
  "GenerateDesignRequest \<Rightarrow> (exn + audio list) \<Rightarrow> world \<Rightarrow> (exn + GenerateResponse) \<times> world" where
  "generate_design request gen w =
     (case get_model DESIGN_MODEL w of
        None \<Rightarrow> (Inl (HTTPException 400 ''VoiceDesign model not loaded''), w)
      | Some info \<Rightarrow>
          if state (store w info) \<noteq> LOADED
          then (Inl (HTTPException 400 ''VoiceDesign model not loaded''), w)
          else run_generation (model_instance (store w info)) ''generate_voice_design''
                 [(''text'', design_text request), (''language'', design_language request),
                  (''instruct'', design_instruct request)]
                 (design_output_path request) gen w)"

section \<open>Notions the properties are stated with\<close>

text \<open>The record of the specification's data model: the instance handle is present
  exactly in state \<open>Loaded\<close>.\<close>

definition instance_iff_loaded :: "ModelInfo \<Rightarrow> bool" where
  "instance_iff_loaded info = ((model_instance info \<noteq> None) = (state info = LOADED))"

text \<open>The transition relation as the specification lists it.\<close>

definition spec_transitions :: "(ModelState \<times> ModelState) list" where
  "spec_transitions =
     [(UNLOADED, LOADING), (LOADING, LOADED), (LOADING, ERROR), (LOADED, UNLOADING),
      (UNLOADING, UNLOADED), (ERROR, LOADING)]"

definition spec_transition :: "ModelState \<Rightarrow> ModelState \<Rightarrow> bool" where
  "spec_transition s s' = ((s, s') \<in> set spec_transitions)"

text \<open>What one atomic section may do to the state of a record: leave it, or move it
  along a listed transition.\<close>

definition state_step :: "ModelState \<Rightarrow> ModelState \<Rightarrow> bool" where
  "state_step s s' = (s' = s \<or> spec_transition s s')"

text \<open>Whether the record that a generation request targets is registered and loaded.\<close>

definition target_loaded :: "string \<Rightarrow> world \<Rightarrow> bool" where
  "target_loaded mid w =
     (case get_model mid w of None \<Rightarrow> False | Some r \<Rightarrow> state (store w r) = LOADED)"

text \<open>Whether \<^verbatim>\<open>load_model\<close> on this identifier goes on to the external loader: the
  record is not registered yet, or it is neither loaded nor loading.\<close>

definition load_proceeds :: "string \<Rightarrow> world \<Rightarrow> bool" where
  "load_proceeds mid w =
     (case get_model mid w of
        None \<Rightarrow> True
      | Some r \<Rightarrow> state (store w r) \<noteq> LOADED \<and> state (store w r) \<noteq> LOADING)"

section \<open>Concrete worlds and environments\<close>

text \<open>A loader that succeeds, one that raises \<^verbatim>\<open>RuntimeError("out of memory")\<close>, one
  that raises \<^verbatim>\<open>RuntimeError()\<close> (whose \<^verbatim>\<open>str\<close> is empty), and one that raises an
  exception that is not a \<^verbatim>\<open>RuntimeError\<close>.\<close>

definition example_env :: load_env where
  "example_env =
     \<lparr>load_memory_before = 512, load_start_time = 100,
      load_result = Inr \<lparr>sample_rate = 24000\<rparr>, load_end_time = 103,
      load_memory_after = 2560\<rparr>"

definition failing_env :: load_env where
  "failing_env = example_env\<lparr>load_result := Inl (RuntimeError ''out of memory'')\<rparr>"

definition silent_env :: load_env where
  "silent_env = example_env\<lparr>load_result := Inl (RuntimeError [])\<rparr>"

definition oserror_env :: load_env where
  "oserror_env = example_env\<lparr>load_result := Inl (OSError ''Repository Not Found'')\<rparr>"

definition example_uenv :: unload_env where
  "example_uenv = \<lparr>unload_memory_before = 2560, unload_memory_after = 600\<rparr>"

definition loaded_world :: world where
  "loaded_world = snd (load_model DESIGN_MODEL example_env registry_init)"

definition failed_world :: world where
  "failed_world = snd (load_model DESIGN_MODEL failing_env registry_init)"

definition example_clone_request :: GenerateCloneRequest where
  "example_clone_request =
     \<lparr>clone_model_id = DESIGN_MODEL, clone_text = ''Hello'', clone_ref_audio_path = ''ref.wav'',
      clone_ref_text = Some [], clone_output_path = ''out.wav''\<rparr>"

definition example_control_request :: GenerateControlRequest where
  "example_control_request =
     \<lparr>control_model_id = DESIGN_MODEL, control_text = ''Hello'', control_speaker = ''Vivian'',
      control_language = ''English'', control_instruct = None, control_output_path = ''out.wav''\<rparr>"

definition example_design_request :: GenerateDesignRequest where
  "example_design_request =
     \<lparr>design_text = ''Hello'', design_language = ''English'', design_instruct = ''A calm voice'',
      design_output_path = ''out.wav''\<rparr>"

section \<open>Reachable worlds\<close>

text \<open>The worlds the server can be in when no operation is in progress: the initial
  registry, and what a completed \<^verbatim>\<open>load_model\<close>, \<^verbatim>\<open>unload_model\<close> or generation request
  leaves. The endpoints of the server are coroutines that call the registry without
  awaiting, so the event loop runs one operation to its end before the next begins;
  operations of several threads that overlap are not part of this embedding.\<close>

inductive reachable :: "world \<Rightarrow> bool" where
  init: "reachable registry_init"
| load: "reachable w \<Longrightarrow> reachable (snd (load_model mid env w))"
| unload: "reachable w \<Longrightarrow> reachable (snd (unload_model mid uenv w))"
| clone: "reachable w \<Longrightarrow> reachable (snd (generate_clone creq gen w))"
| control: "reachable w \<Longrightarrow> reachable (snd (generate_control treq gen w))"
| design: "reachable w \<Longrightarrow> reachable (snd (generate_design dreq gen w))"

text \<open>What the registry keeps true between operations: every registered reference is
  allocated, its record has an instance exactly when it is loaded, and no record is
  left in state \<open>UNLOADING\<close>.\<close>

definition registry_ok :: "world \<Rightarrow> bool" where
  "registry_ok w =
     (\<forall>m r. get_model m w = Some r \<longrightarrow>
        r < next_ref w \<and> instance_iff_loaded (store w r) \<and> state (store w r) \<noteq> UNLOADING)"

text \<open>What \<^verbatim>\<open>__init__\<close> establishes: every registered record is allocated and
  \<open>Unloaded\<close>.\<close>

definition all_unloaded :: "world \<Rightarrow> bool" where
  "all_unloaded w =
     (\<forall>m r. get_model m w = Some r \<longrightarrow> r < next_ref w \<and> state (store w r) = UNLOADED)"

lemma map_of_dict_set: "map_of (dict_set kvs k v) = (map_of kvs)(k \<mapsto> v)"
  by (induction kvs k v rule: dict_set.induct) auto

section \<open>Basic facts about the sections\<close>

lemma get_model_update_info [simp]: "get_model m (update_info r f w) = get_model m w"
  by (simp add: get_model_def update_info_def)
lemma models_update_info [simp]: "models (update_info r f w) = models w"
  by (simp add: update_info_def)
lemma store_update_info [simp]: "store (update_info r f w) = (store w)(r := f (store w r))"
  by (simp add: update_info_def)
lemma next_ref_update_info [simp]: "next_ref (update_info r f w) = next_ref w"
  by (simp add: update_info_def)
lemma calls_update_info [simp]: "calls (update_info r f w) = calls w"
  by (simp add: update_info_def)
lemma get_model_call [simp]: "get_model m (call e w) = get_model m w"
  by (simp add: get_model_def call_def)
lemma models_call [simp]: "models (call e w) = models w"
  by (simp add: call_def)
lemma store_call [simp]: "store (call e w) = store w"
  by (simp add: call_def)
lemma next_ref_call [simp]: "next_ref (call e w) = next_ref w"
  by (simp add: call_def)
lemma calls_call [simp]: "calls (call e w) = calls w @ [e]"
  by (simp add: call_def)

lemma get_model_empty: "get_model m empty_world = None"
  by (simp add: get_model_def empty_world_def)

lemma dict_getitem_get: "dict_getitem (models w) m = (case get_model m w of None \<Rightarrow> Inl (KeyError m) | Some r \<Rightarrow> Inr r)"
  by (simp add: dict_getitem_def get_model_def)
lemma dict_contains_get: "dict_contains (models w) m = (get_model m w \<noteq> None)"
  by (simp add: dict_contains_def get_model_def)

lemma get_model_register: "get_model m (register mid w) = (if m = mid then Some (next_ref w) else get_model m w)"
  by (simp add: register_def alloc_def get_model_def map_of_dict_set)
lemma store_register: "store (register mid w) = (store w)(next_ref w := ModelInfo_new mid)"
  by (simp add: register_def alloc_def)
lemma next_ref_register: "next_ref (register mid w) = Suc (next_ref w)"
  by (simp add: register_def alloc_def)
lemma calls_register: "calls (register mid w) = calls w"
  by (simp add: register_def alloc_def)

lemma get_model_ensure: "get_model m (ensure_registered mid w) = (if m = mid \<and> get_model mid w = None then Some (next_ref w) else get_model m w)"
  by (simp add: ensure_registered_def dict_contains_get get_model_register)


lemma load_begin_noop:
  "get_model mid w = Some r \<Longrightarrow> state (store w r) = LOADED \<or> state (store w r) = LOADING \<Longrightarrow>
    load_model_begin mid w = (Inr (True, r), w)"
  by (auto simp: load_model_begin_def ensure_registered_def dict_contains_get dict_getitem_get)

lemma load_begin_go:
  "get_model mid w = Some r \<Longrightarrow> state (store w r) \<noteq> LOADED \<Longrightarrow> state (store w r) \<noteq> LOADING \<Longrightarrow>
    load_model_begin mid w = (Inr (False, r), update_info r (\<lambda>info. info\<lparr>state := LOADING, error_message := None\<rparr>) w)"
  by (auto simp: load_model_begin_def ensure_registered_def dict_contains_get dict_getitem_get)

lemma load_begin_new:
  "get_model mid w = None \<Longrightarrow>
    load_model_begin mid w = (Inr (False, next_ref w), update_info (next_ref w) (\<lambda>info. info\<lparr>state := LOADING, error_message := None\<rparr>) (register mid w))"
  by (auto simp: load_model_begin_def ensure_registered_def dict_contains_get dict_getitem_get get_model_register store_register ModelInfo_new_def)


lemma ensure_registered_Some:
  "get_model mid (ensure_registered mid w) = Some r \<longleftrightarrow> (case get_model mid w of None \<Rightarrow> r = next_ref w | Some r' \<Rightarrow> r = r')"
  by (auto simp: get_model_ensure split: option.splits)

lemma load_model_begin_proceeds:
  assumes "load_proceeds mid w" and "get_model mid (ensure_registered mid w) = Some r"
  shows "load_model_begin mid w =
    (Inr (False, r), update_info r (\<lambda>info. info\<lparr>state := LOADING, error_message := None\<rparr>) (ensure_registered mid w))"
proof (cases "get_model mid w")
  case None
  with assms(2) have "r = next_ref w" by (simp add: get_model_ensure)
  moreover have "ensure_registered mid w = register mid w"
    using None by (simp add: ensure_registered_def dict_contains_get)
  ultimately show ?thesis using None by (simp add: load_begin_new)
next
  case (Some r')
  with assms(2) have "r = r'" by (simp add: get_model_ensure)
  moreover have "ensure_registered mid w = w"
    using Some by (simp add: ensure_registered_def dict_contains_get)
  ultimately show ?thesis using Some assms(1) by (simp add: load_begin_go load_proceeds_def)
qed

lemma load_model_begin_returns:
  assumes "\<not> load_proceeds mid w"
  shows "\<exists>r. get_model mid w = Some r \<and> load_model_begin mid w = (Inr (True, r), w)"
  using assms by (auto simp: load_proceeds_def load_begin_noop split: option.splits)

lemma load_model_returns:
  assumes "\<not> load_proceeds mid w"
  shows "\<exists>r. get_model mid w = Some r \<and> load_model mid env w = (Inr r, w)"
  using load_model_begin_returns[OF assms] by (auto simp: load_model_def)

lemma load_model_success:
  assumes "load_proceeds mid w" and "get_model mid (ensure_registered mid w) = Some r"
    and "load_result env = Inr model"
  shows "load_model mid env w =
    (Inr r,
     update_info r
       (\<lambda>info. info\<lparr>state := LOADED, model_instance := Some model,
          memory_before_mb := Some (load_memory_before env),
          memory_after_mb := Some (load_memory_after env),
          memory_delta_mb := Some (load_memory_after env - load_memory_before env),
          load_time_seconds := Some (load_end_time env - load_start_time env)\<rparr>)
       (call (GetMemoryMb (load_memory_after env))
         (call (TimeTime (load_end_time env))
           (call (LoadModel mid)
             (call (TimeTime (load_start_time env))
               (call (GetMemoryMb (load_memory_before env))
                 (snd (load_model_begin mid w))))))))"
  using assms
  by (simp add: load_model_def load_model_begin_proceeds Let_def load_model_loaded_def dict_getitem_get)

lemma load_model_runtime_error:
  assumes "load_proceeds mid w" and "get_model mid (ensure_registered mid w) = Some r"
    and "load_result env = Inl (RuntimeError msg)"
  shows "load_model mid env w =
    (Inl (RuntimeError msg),
     update_info r (\<lambda>info. info\<lparr>state := ERROR, error_message := Some msg\<rparr>)
           (call (LoadModel mid)
             (call (TimeTime (load_start_time env))
               (call (GetMemoryMb (load_memory_before env))
                 (snd (load_model_begin mid w))))))"
  using assms
  by (simp add: load_model_def load_model_begin_proceeds Let_def load_model_failed_def dict_getitem_get)

lemma load_model_other_error:
  assumes "load_proceeds mid w" 
    and "load_result env = Inl e" and "\<forall>msg. e \<noteq> RuntimeError msg"
  shows "load_model mid env w =
    (Inl e,
           (call (LoadModel mid)
             (call (TimeTime (load_start_time env))
               (call (GetMemoryMb (load_memory_before env))
                 (snd (load_model_begin mid w))))))"
proof -
  obtain r where "get_model mid (ensure_registered mid w) = Some r"
    by (cases "get_model mid w") (auto simp: get_model_ensure)
  then show ?thesis
  using assms
  by (cases e) (simp_all add: load_model_def load_model_begin_proceeds Let_def load_model_failed_def dict_getitem_get)
qed

lemma unload_model_begin_unknown:
  "get_model mid w = None \<Longrightarrow>
     unload_model_begin mid w = (Inl (ValueError (''Unknown model: '' @ mid)), w)"
  by (simp add: unload_model_begin_def dict_contains_get)

lemma unload_model_begin_not_loaded:
  "get_model mid w = Some r \<Longrightarrow> state (store w r) \<noteq> LOADED \<Longrightarrow>
     unload_model_begin mid w = (Inr (True, r), w)"
  by (simp add: unload_model_begin_def dict_contains_get dict_getitem_get)

lemma unload_model_begin_loaded:
  "get_model mid w = Some r \<Longrightarrow> state (store w r) = LOADED \<Longrightarrow>
     unload_model_begin mid w =
       (Inr (False, r), update_info r (\<lambda>info. info\<lparr>state := UNLOADING\<rparr>) w)"
  by (simp add: unload_model_begin_def dict_contains_get dict_getitem_get)

lemma unload_model_unknown:
  "get_model mid w = None \<Longrightarrow>
     unload_model mid env w = (Inl (ValueError (''Unknown model: '' @ mid)), w)"
  by (simp add: unload_model_def unload_model_begin_unknown)

lemma unload_model_not_loaded:
  "get_model mid w = Some r \<Longrightarrow> state (store w r) \<noteq> LOADED \<Longrightarrow>
     unload_model mid env w = (Inr r, w)"
  by (simp add: unload_model_def unload_model_begin_not_loaded)

lemma unload_model_loaded:
  assumes "get_model mid w = Some r" and "state (store w r) = LOADED"
  shows "unload_model mid env w =
    (Inr r,
     update_info r
       (\<lambda>info. info\<lparr>state := UNLOADED,
          memory_before_mb := Some (unload_memory_before env),
          memory_after_mb := Some (unload_memory_after env),
          memory_delta_mb := Some (unload_memory_after env - unload_memory_before env)\<rparr>)
       (call (GetMemoryMb (unload_memory_after env))
         (call MxClearCache
           (call GcCollect
             (update_info r (\<lambda>info. info\<lparr>model_instance := None\<rparr>)
               (call (GetMemoryMb (unload_memory_before env))
                 (update_info r (\<lambda>info. info\<lparr>state := UNLOADING\<rparr>) w)))))))"
  using assms
  by (simp add: unload_model_def unload_model_begin_loaded Let_def unload_model_clear_def
      unload_model_done_def dict_getitem_get)

section \<open>The registry invariant\<close>

lemma run_generation_frame:
  "models (snd (run_generation inst method kwargs out gen w)) = models w \<and>
   store (snd (run_generation inst method kwargs out gen w)) = store w \<and>
   next_ref (snd (run_generation inst method kwargs out gen w)) = next_ref w"
  by (simp add: run_generation_def Let_def split: option.splits sum.splits list.splits)

lemma generate_clone_frame:
  "models (snd (generate_clone req gen w)) = models w \<and>
   store (snd (generate_clone req gen w)) = store w \<and>
   next_ref (snd (generate_clone req gen w)) = next_ref w"
  by (simp add: generate_clone_def run_generation_frame split: option.splits)

lemma generate_control_frame:
  "models (snd (generate_control req gen w)) = models w \<and>
   store (snd (generate_control req gen w)) = store w \<and>
   next_ref (snd (generate_control req gen w)) = next_ref w"
  by (simp add: generate_control_def run_generation_frame split: option.splits)

lemma generate_design_frame:
  "models (snd (generate_design req gen w)) = models w \<and>
   store (snd (generate_design req gen w)) = store w \<and>
   next_ref (snd (generate_design req gen w)) = next_ref w"
  by (simp add: generate_design_def run_generation_frame split: option.splits)

lemma registry_ok_frame:
  assumes "models w' = models w" and "store w' = store w" and "next_ref w' = next_ref w"
  shows "registry_ok w' = registry_ok w"
  using assms by (simp add: registry_ok_def get_model_def)

lemma registry_ok_empty: "registry_ok empty_world"
  by (simp add: registry_ok_def get_model_def empty_world_def)

lemma registry_ok_register:
  assumes "registry_ok w"
  shows "registry_ok (register mid w)"
  using assms
  by (auto simp: registry_ok_def get_model_register store_register next_ref_register
      instance_iff_loaded_def ModelInfo_new_def less_Suc_eq)

lemma registry_ok_foldl:
  "registry_ok w \<Longrightarrow> registry_ok (foldl (\<lambda>w mid. register mid w) w ids)"
  by (induction ids arbitrary: w) (simp_all add: registry_ok_register)

lemma registry_ok_init: "registry_ok registry_init"
  unfolding registry_init_def by (rule registry_ok_foldl[OF registry_ok_empty])

lemma registry_ok_ensure:
  "registry_ok w \<Longrightarrow> registry_ok (ensure_registered mid w)"
  by (simp add: ensure_registered_def registry_ok_register)

lemma registry_ok_update:
  assumes "registry_ok w" and "instance_iff_loaded (f (store w r))"
    and "state (f (store w r)) \<noteq> UNLOADING"
  shows "registry_ok (update_info r f w)"
  using assms by (auto simp: registry_ok_def)

lemma registry_ok_call: "registry_ok (call e w) = registry_ok w"
  by (rule registry_ok_frame) simp_all

lemma ensure_registered_ex: "\<exists>r. get_model mid (ensure_registered mid w) = Some r"
  by (cases "get_model mid w") (auto simp: get_model_ensure)

lemma load_proceeds_ensure:
  assumes "load_proceeds mid w" and "get_model mid (ensure_registered mid w) = Some r"
  shows "state (store (ensure_registered mid w) r) \<noteq> LOADED \<and>
         state (store (ensure_registered mid w) r) \<noteq> LOADING"
proof (cases "get_model mid w")
  case None
  then have "ensure_registered mid w = register mid w" and "r = next_ref w"
    using assms(2) by (simp_all add: ensure_registered_def dict_contains_get get_model_register)
  then show ?thesis by (simp add: store_register ModelInfo_new_def)
next
  case (Some r')
  then have "ensure_registered mid w = w" and "r = r'"
    using assms(2) by (simp_all add: ensure_registered_def dict_contains_get)
  then show ?thesis using assms(1) Some by (simp add: load_proceeds_def)
qed

lemma registry_okD:
  assumes "registry_ok w" and "get_model m w = Some r"
  shows "r < next_ref w" and "instance_iff_loaded (store w r)" and "state (store w r) \<noteq> UNLOADING"
  using assms unfolding registry_ok_def by blast+

lemma registry_ok_idle:
  assumes "registry_ok w" and "get_model m w = Some r" and "state (store w r) \<noteq> LOADED"
  shows "model_instance (store w r) = None"
  using registry_okD(2)[OF assms(1,2)] assms(3) by (simp add: instance_iff_loaded_def)

lemma registry_ok_load_begin:
  assumes "registry_ok w"
  shows "registry_ok (snd (load_model_begin mid w))"
proof (cases "load_proceeds mid w")
  case True
  obtain r where r: "get_model mid (ensure_registered mid w) = Some r"
    using ensure_registered_ex by blast
  have ok: "registry_ok (ensure_registered mid w)"
    using assms by (rule registry_ok_ensure)
  have "model_instance (store (ensure_registered mid w) r) = None"
    using registry_ok_idle[OF ok r] load_proceeds_ensure[OF True r] by simp
  then have "registry_ok (update_info r (\<lambda>info. info\<lparr>state := LOADING, error_message := None\<rparr>)
      (ensure_registered mid w))"
    by (intro registry_ok_update[OF ok]) (simp_all add: instance_iff_loaded_def)
  then show ?thesis by (simp add: load_model_begin_proceeds[OF True r])
next
  case False
  then show ?thesis using assms load_model_begin_returns[OF False] by auto
qed

lemma registry_ok_load:
  assumes "registry_ok w"
  shows "registry_ok (snd (load_model mid env w))"
proof (cases "load_proceeds mid w")
  case False
  then show ?thesis using assms load_model_returns[OF False, of env] by auto
next
  case True
  obtain r where r: "get_model mid (ensure_registered mid w) = Some r"
    using ensure_registered_ex by blast
  let ?w1 = "snd (load_model_begin mid w)"
  have ok1: "registry_ok ?w1" using assms by (rule registry_ok_load_begin)
  have st1: "state (store ?w1 r) = LOADING" "model_instance (store ?w1 r) = None"
    using registry_ok_idle[OF registry_ok_ensure[OF assms] r] load_proceeds_ensure[OF True r]
    by (simp_all add: load_model_begin_proceeds[OF True r])
  show ?thesis
  proof (cases "load_result env")
    case (Inr model)
    show ?thesis
      unfolding load_model_success[OF True r Inr] snd_conv
      by (intro registry_ok_update) (simp_all add: registry_ok_call ok1 instance_iff_loaded_def)
  next
    case (Inl e)
    show ?thesis
    proof (cases "\<exists>msg. e = RuntimeError msg")
      case True
      then obtain msg where "load_result env = Inl (RuntimeError msg)" using Inl by auto
      then show ?thesis
        unfolding load_model_runtime_error[OF \<open>load_proceeds mid w\<close> r \<open>load_result env = Inl (RuntimeError msg)\<close>] snd_conv
        by (intro registry_ok_update) (simp_all add: registry_ok_call ok1 instance_iff_loaded_def st1)
    next
      case False
      then have "\<forall>msg. e \<noteq> RuntimeError msg" by simp
      from load_model_other_error[OF \<open>load_proceeds mid w\<close> Inl this]
      show ?thesis by (simp add: registry_ok_call ok1)
    qed
  qed
qed

lemma registry_ok_unload:
  assumes "registry_ok w"
  shows "registry_ok (snd (unload_model mid uenv w))"
proof (cases "get_model mid w")
  case None
  then show ?thesis using assms by (simp add: unload_model_unknown)
next
  case (Some r)
  show ?thesis
  proof (cases "state (store w r) = LOADED")
    case False
    then show ?thesis using assms Some by (simp add: unload_model_not_loaded)
  next
    case True
    have "registry_ok (update_info r
            (\<lambda>info. info\<lparr>state := UNLOADED, model_instance := None,
               memory_before_mb := Some (unload_memory_before uenv),
               memory_after_mb := Some (unload_memory_after uenv),
               memory_delta_mb := Some (unload_memory_after uenv - unload_memory_before uenv)\<rparr>) w)"
      using assms by (intro registry_ok_update) (simp_all add: instance_iff_loaded_def)
    moreover have "registry_ok (snd (unload_model mid uenv w)) =
       registry_ok (update_info r
            (\<lambda>info. info\<lparr>state := UNLOADED, model_instance := None,
               memory_before_mb := Some (unload_memory_before uenv),
               memory_after_mb := Some (unload_memory_after uenv),
               memory_delta_mb := Some (unload_memory_after uenv - unload_memory_before uenv)\<rparr>) w)"
      unfolding unload_model_loaded[OF Some True] snd_conv
      by (rule registry_ok_frame) (simp_all add: fun_eq_iff)
    ultimately show ?thesis by simp
  qed
qed

lemma reachable_ok: "reachable w \<Longrightarrow> registry_ok w"
proof (induction rule: reachable.induct)
  case init
  show ?case by (rule registry_ok_init)
next
  case (load w mid env)
  then show ?case by (simp add: registry_ok_load)
next
  case (unload w mid uenv)
  then show ?case by (simp add: registry_ok_unload)
next
  case (clone w creq gen)
  then show ?case using registry_ok_frame[of "snd (generate_clone creq gen w)" w]
    by (simp add: generate_clone_frame)
next
  case (control w treq gen)
  then show ?case using registry_ok_frame[of "snd (generate_control treq gen w)" w]
    by (simp add: generate_control_frame)
next
  case (design w dreq gen)
  then show ?case using registry_ok_frame[of "snd (generate_design dreq gen w)" w]
    by (simp add: generate_design_frame)
qed

section \<open>What an operation does to the dictionary\<close>

lemma load_model_begin_state:
  assumes "load_proceeds mid w" and "get_model mid (ensure_registered mid w) = Some r"
  shows "store (snd (load_model_begin mid w)) r =
           (store (ensure_registered mid w) r)\<lparr>state := LOADING, error_message := None\<rparr>"
    and "get_model m (snd (load_model_begin mid w)) = get_model m (ensure_registered mid w)"
    and "calls (snd (load_model_begin mid w)) = calls w"
  using assms
  by (simp_all add: load_model_begin_proceeds ensure_registered_def calls_register)

lemma load_model_register:
  assumes "get_model mid w = None"
  shows "load_model mid env w = load_model mid env (register mid w)"
proof -
  have "ensure_registered mid (register mid w) = register mid w"
    by (simp add: ensure_registered_def dict_contains_get get_model_register)
  moreover have "ensure_registered mid w = register mid w"
    using assms by (simp add: ensure_registered_def dict_contains_get)
  ultimately have "load_model_begin mid w = load_model_begin mid (register mid w)"
    by (simp add: load_model_begin_def)
  then show ?thesis by (simp add: load_model_def)
qed

lemma get_model_load_begin:
  "get_model m (snd (load_model_begin mid w)) = get_model m (ensure_registered mid w)"
  by (simp add: load_model_begin_def Let_def split: sum.splits)

lemma get_model_load:
  "get_model m (snd (load_model mid env w)) = get_model m (ensure_registered mid w)"
proof (cases "load_proceeds mid w")
  case False
  from load_model_returns[OF False, of env] show ?thesis
    by (auto simp: get_model_ensure)
next
  case True
  obtain r where r: "get_model mid (ensure_registered mid w) = Some r"
    using ensure_registered_ex by blast
  show ?thesis
  proof (cases "load_result env")
    case (Inr model)
    show ?thesis by (simp add: load_model_success[OF True r Inr] get_model_load_begin)
  next
    case (Inl e)
    show ?thesis
    proof (cases "\<exists>msg. e = RuntimeError msg")
      case True
      then obtain msg where m: "load_result env = Inl (RuntimeError msg)" using Inl by auto
      show ?thesis
        by (simp add: load_model_runtime_error[OF \<open>load_proceeds mid w\<close> r m] get_model_load_begin)
    next
      case False
      then have "\<forall>msg. e \<noteq> RuntimeError msg" by simp
      from load_model_other_error[OF \<open>load_proceeds mid w\<close> Inl this]
      show ?thesis by (simp add: get_model_load_begin)
    qed
  qed
qed

lemma get_model_unload:
  "get_model m (snd (unload_model mid uenv w)) = get_model m w"
proof (cases "get_model mid w")
  case None
  then show ?thesis by (simp add: unload_model_unknown)
next
  case (Some r)
  then show ?thesis
    by (cases "state (store w r) = LOADED")
       (simp_all add: unload_model_loaded unload_model_not_loaded)
qed

lemma run_generation_calls:
  "calls (snd (run_generation (Some model) method kwargs out gen w)) \<noteq> calls w"
  by (simp add: run_generation_def Let_def split: sum.splits list.splits)

lemma get_model_get_all: "get_model m w = Some r \<Longrightarrow> r \<in> set (get_all_models w)"
  by (auto simp: get_model_def get_all_models_def dest!: map_of_SomeD intro: rev_image_eqI)

lemma dict_set_new: "map_of kvs k = None \<Longrightarrow> dict_set kvs k v = kvs @ [(k, v)]"
  by (induction kvs k v rule: dict_set.induct) (auto split: if_splits)

lemma models_ensure:
  "models (ensure_registered mid w) =
     models w @ (if get_model mid w = None then [(mid, next_ref w)] else [])"
  by (simp add: ensure_registered_def dict_contains_get register_def alloc_def dict_set_new
      get_model_def)

lemma models_load_begin:
  "models (snd (load_model_begin mid w)) = models (ensure_registered mid w)"
  by (simp add: load_model_begin_def Let_def split: sum.splits)

lemma models_load:
  "models (snd (load_model mid env w)) = models (ensure_registered mid w)"
proof (cases "load_proceeds mid w")
  case False
  from load_model_returns[OF False, of env] show ?thesis
    by (auto simp: models_ensure)
next
  case True
  obtain r where r: "get_model mid (ensure_registered mid w) = Some r"
    using ensure_registered_ex by blast
  show ?thesis
  proof (cases "load_result env")
    case (Inr model)
    show ?thesis by (simp add: load_model_success[OF True r Inr] models_load_begin)
  next
    case (Inl e)
    show ?thesis
    proof (cases "\<exists>msg. e = RuntimeError msg")
      case True
      then obtain msg where m: "load_result env = Inl (RuntimeError msg)" using Inl by auto
      show ?thesis
        by (simp add: load_model_runtime_error[OF \<open>load_proceeds mid w\<close> r m] models_load_begin)
    next
      case False
      then have "\<forall>msg. e \<noteq> RuntimeError msg" by simp
      from load_model_other_error[OF \<open>load_proceeds mid w\<close> Inl this]
      show ?thesis by (simp add: models_load_begin)
    qed
  qed
qed

lemma models_unload_begin:
  "models (snd (unload_model_begin mid w)) = models w"
  by (simp add: unload_model_begin_def split: sum.splits)

lemma models_unload:
  "models (snd (unload_model mid uenv w)) = models w"
proof (cases "get_model mid w")
  case None
  then show ?thesis by (simp add: unload_model_unknown)
next
  case (Some r)
  then show ?thesis
    by (cases "state (store w r) = LOADED")
       (simp_all add: unload_model_loaded unload_model_not_loaded)
qed

section \<open>States between the critical sections\<close>

lemma unload_begin_continues:
  assumes "fst (unload_model_begin mid w) = Inr (False, r0)"
  shows "get_model mid w = Some r0 \<and> state (store w r0) = LOADED"
  using assms
  by (auto simp: unload_model_begin_def dict_contains_get dict_getitem_get
      split: if_splits option.splits)

lemma unload_window:
  assumes "registry_ok w" and "get_model m w = Some r"
  shows "(model_instance (store (snd (unload_model_begin mid w)) r) \<noteq> None) =
         (state (store (snd (unload_model_begin mid w)) r) \<in> {LOADED, UNLOADING})"
proof -
  note ok = registry_okD(2,3)[OF assms, unfolded instance_iff_loaded_def]
  show ?thesis
  proof (cases "get_model mid w")
    case None
    then show ?thesis using ok by (simp add: unload_model_begin_unknown)
  next
    case (Some r0)
    show ?thesis
    proof (cases "state (store w r0) = LOADED")
      case False
      then show ?thesis using ok Some by (simp add: unload_model_begin_not_loaded)
    next
      case True
      then show ?thesis using ok Some by (auto simp: unload_model_begin_loaded)
    qed
  qed
qed

lemma unload_cleared:
  assumes "registry_ok w" and "get_model m w = Some r"
    and "fst (unload_model_begin mid w) = Inr (False, r0)"
  shows "instance_iff_loaded
           (store (snd (unload_model_clear mid (call e (snd (unload_model_begin mid w))))) r)"
proof -
  note ok = registry_okD(2)[OF assms(1,2)]
  from unload_begin_continues[OF assms(3)]
  have g: "get_model mid w = Some r0" and l: "state (store w r0) = LOADED" by simp_all
  show ?thesis using ok
    by (auto simp: unload_model_begin_loaded[OF g l] unload_model_clear_def dict_getitem_get g
        instance_iff_loaded_def)
qed

lemma all_unloaded_register: "all_unloaded w \<Longrightarrow> all_unloaded (register mid w)"
  by (auto simp: all_unloaded_def get_model_register store_register next_ref_register
      ModelInfo_new_def less_Suc_eq)

lemma all_unloaded_foldl:
  "all_unloaded w \<Longrightarrow> all_unloaded (foldl (\<lambda>w mid. register mid w) w ids)"
  by (induction ids arbitrary: w) (simp_all add: all_unloaded_register)

lemma registry_init_unloaded:
  assumes "get_model m registry_init = Some r"
  shows "state (store registry_init r) = UNLOADED"
proof -
  have "all_unloaded empty_world" by (simp add: all_unloaded_def get_model_empty)
  then have "all_unloaded registry_init"
    unfolding registry_init_def by (rule all_unloaded_foldl)
  then show ?thesis using assms unfolding all_unloaded_def by blast
qed

lemma store_ensure:
  assumes "registry_ok w" and "get_model m (ensure_registered mid w) = Some r"
  shows "store (ensure_registered mid w) r =
           (if get_model m w = None then ModelInfo_new mid else store w r)"
proof (cases "get_model mid w")
  case None
  then have e: "ensure_registered mid w = register mid w"
    by (simp add: ensure_registered_def dict_contains_get)
  show ?thesis
  proof (cases "get_model m w")
    case None
    then show ?thesis using assms(2) e
      by (auto simp: get_model_register store_register split: if_splits)
  next
    case (Some r')
    then have "r' < next_ref w" using registry_okD(1)[OF assms(1)] by simp
    then show ?thesis using assms(2) e Some \<open>get_model mid w = None\<close>
      by (auto simp: get_model_register store_register split: if_splits)
  qed
next
  case (Some r0)
  then have e: "ensure_registered mid w = w"
    by (simp add: ensure_registered_def dict_contains_get)
  then show ?thesis using assms(2) by simp
qed

lemma state_step_simps:
  "state_step s s" "state_step UNLOADED LOADING" "state_step ERROR LOADING"
  "state_step LOADING LOADED" "state_step LOADING ERROR" "state_step LOADED UNLOADING"
  "state_step UNLOADING UNLOADED"
  by (simp_all add: state_step_def spec_transition_def spec_transitions_def)

lemma load_begin_step:
  assumes "registry_ok w" and "get_model m (ensure_registered mid w) = Some r"
  shows "state_step (state (store (ensure_registered mid w) r))
           (state (store (snd (load_model_begin mid w)) r))"
proof (cases "load_proceeds mid w")
  case False
  from load_model_begin_returns[OF False] show ?thesis
    by (auto simp: ensure_registered_def dict_contains_get state_step_simps)
next
  case True
  obtain r0 where r0: "get_model mid (ensure_registered mid w) = Some r0"
    using ensure_registered_ex by blast
  have ok: "registry_ok (ensure_registered mid w)" using assms(1) by (rule registry_ok_ensure)
  have "state (store (ensure_registered mid w) r0) = UNLOADED \<or>
        state (store (ensure_registered mid w) r0) = ERROR"
    using load_proceeds_ensure[OF True r0] registry_okD(3)[OF ok r0]
    by (cases "state (store (ensure_registered mid w) r0)") simp_all
  then show ?thesis
    by (auto simp: load_model_begin_proceeds[OF True r0] state_step_simps)
qed

lemma load_finish_step:
  assumes "registry_ok w"
  shows "state_step (state (store (snd (load_model_begin mid w)) r))
           (state (store (snd (load_model mid env w)) r))"
proof (cases "load_proceeds mid w")
  case False
  from load_model_begin_returns[OF False] load_model_returns[OF False, of env] show ?thesis
    by (auto simp: state_step_simps)
next
  case True
  obtain r0 where r0: "get_model mid (ensure_registered mid w) = Some r0"
    using ensure_registered_ex by blast
  have l: "state (store (snd (load_model_begin mid w)) r0) = LOADING"
    by (simp add: load_model_begin_state(1)[OF True r0])
  show ?thesis
  proof (cases "load_result env")
    case (Inr model)
    show ?thesis using l by (auto simp: load_model_success[OF True r0 Inr] state_step_simps)
  next
    case (Inl e)
    show ?thesis
    proof (cases "\<exists>msg. e = RuntimeError msg")
      case True
      then obtain msg where m: "load_result env = Inl (RuntimeError msg)" using Inl by auto
      show ?thesis using l
        by (auto simp: load_model_runtime_error[OF \<open>load_proceeds mid w\<close> r0 m] state_step_simps)
    next
      case False
      then have "\<forall>msg. e \<noteq> RuntimeError msg" by simp
      from load_model_other_error[OF \<open>load_proceeds mid w\<close> Inl this]
      show ?thesis by (simp add: state_step_simps)
    qed
  qed
qed

lemma unload_steps:
  "state_step (state (store w r)) (state (store (snd (unload_model_begin mid w)) r)) \<and>
   state_step (state (store (snd (unload_model_begin mid w)) r))
     (state (store (snd (unload_model mid uenv w)) r))"
proof (cases "get_model mid w")
  case None
  then show ?thesis by (simp add: unload_model_unknown unload_model_begin_unknown state_step_simps)
next
  case (Some r0)
  show ?thesis
  proof (cases "state (store w r0) = LOADED")
    case False
    then show ?thesis using Some
      by (simp add: unload_model_not_loaded unload_model_begin_not_loaded state_step_simps)
  next
    case True
    then show ?thesis using Some
      by (auto simp: unload_model_loaded unload_model_begin_loaded state_step_simps)
  qed
qed

lemma unload_clear_state:
  "state (store (snd (unload_model_clear mid w)) r) = state (store w r)"
  by (simp add: unload_model_clear_def split: sum.splits)

section \<open>Facts about the concrete worlds\<close>

lemma registry_init_design:
  "get_model DESIGN_MODEL registry_init = Some 4"
  "store registry_init 4 = ModelInfo_new DESIGN_MODEL"
  "next_ref registry_init = 5"
  by (simp_all add: registry_init_def CLONE_MODELS_def CONTROL_MODELS_def DESIGN_MODEL_def
      get_model_register store_register next_ref_register empty_world_def)

lemma registry_init_proceeds:
  "load_proceeds DESIGN_MODEL registry_init"
  "get_model DESIGN_MODEL (ensure_registered DESIGN_MODEL registry_init) = Some 4"
  by (simp_all add: load_proceeds_def registry_init_design ModelInfo_new_def get_model_ensure)

lemma registry_init_begin:
  "load_model_begin DESIGN_MODEL registry_init =
     (Inr (False, 4),
      update_info 4 (\<lambda>info. info\<lparr>state := LOADING, error_message := None\<rparr>) registry_init)"
  using load_begin_go[OF registry_init_design(1)]
  by (simp add: registry_init_design ModelInfo_new_def)

lemma loaded_world_design:
  "get_model DESIGN_MODEL loaded_world = Some 4"
  "store loaded_world 4 =
     \<lparr>model_id = DESIGN_MODEL, state = LOADED, memory_before_mb = Some 512,
      memory_after_mb = Some 2560, memory_delta_mb = Some 2048, load_time_seconds = Some 3,
      error_message = None, model_instance = Some \<lparr>sample_rate = 24000\<rparr>\<rparr>"
proof -
  have "load_result example_env = Inr \<lparr>sample_rate = 24000\<rparr>"
    by (simp add: example_env_def)
  note eq = load_model_success[OF registry_init_proceeds this]
  show "get_model DESIGN_MODEL loaded_world = Some 4"
    unfolding loaded_world_def eq by (simp add: registry_init_begin registry_init_design)
  show "store loaded_world 4 =
     \<lparr>model_id = DESIGN_MODEL, state = LOADED, memory_before_mb = Some 512,
      memory_after_mb = Some 2560, memory_delta_mb = Some 2048, load_time_seconds = Some 3,
      error_message = None, model_instance = Some \<lparr>sample_rate = 24000\<rparr>\<rparr>"
    unfolding loaded_world_def eq
    by (simp add: registry_init_begin registry_init_design ModelInfo_new_def example_env_def)
qed

lemma failed_world_design:
  "get_model DESIGN_MODEL failed_world = Some 4"
  "store failed_world 4 = (ModelInfo_new DESIGN_MODEL)\<lparr>state := ERROR, error_message := Some ''out of memory''\<rparr>"
proof -
  have "load_result failing_env = Inl (RuntimeError ''out of memory'')"
    by (simp add: failing_env_def)
  note eq = load_model_runtime_error[OF registry_init_proceeds this]
  show "get_model DESIGN_MODEL failed_world = Some 4"
    unfolding failed_world_def eq by (simp add: registry_init_begin registry_init_design)
  show "store failed_world 4 =
     (ModelInfo_new DESIGN_MODEL)\<lparr>state := ERROR, error_message := Some ''out of memory''\<rparr>"
    unfolding failed_world_def eq
    by (simp add: registry_init_begin registry_init_design ModelInfo_new_def)
qed

lemma registry_init_unknown: "get_model ''C'' registry_init = None"
  by (simp add: registry_init_def CLONE_MODELS_def CONTROL_MODELS_def DESIGN_MODEL_def
      get_model_register get_model_empty)

lemma target_loaded_examples:
  "\<not> target_loaded DESIGN_MODEL registry_init" "target_loaded DESIGN_MODEL loaded_world"
  by (simp_all add: target_loaded_def registry_init_design loaded_world_design ModelInfo_new_def)

lemma generate_loaded_calls:
  "calls (snd (generate_clone example_clone_request gen loaded_world)) \<noteq> calls loaded_world"
  "calls (snd (generate_control example_control_request gen loaded_world)) \<noteq> calls loaded_world"
  "calls (snd (generate_design example_design_request gen loaded_world)) \<noteq> calls loaded_world"
  by (simp_all add: generate_clone_def generate_control_def generate_design_def
      example_clone_request_def example_control_request_def loaded_world_design
      run_generation_calls)

lemma loaded_world_reachable: "reachable loaded_world"
  unfolding loaded_world_def by (rule reachable.load[OF reachable.init])

lemma loaded_world_unload_begin:
  "unload_model_begin DESIGN_MODEL loaded_world =
     (Inr (False, 4), update_info 4 (\<lambda>info. info\<lparr>state := UNLOADING\<rparr>) loaded_world)"
  by (rule unload_model_begin_loaded) (simp_all add: loaded_world_design)

section \<open>Properties of the registry\<close>

text \<open>
  C1, as the claim states it, fails. In the world reached by loading the design model,
  the first critical section of \<^verbatim>\<open>unload_model\<close> sets the state to \<open>Unloading\<close> and
  releases the lock while the instance is still in the record: the method goes on
  (the flag is \<open>False\<close>), \<^verbatim>\<open>get_model\<close> returns the record, and the equivalence
  between "instance present" and "Loaded" does not hold of it.
\<close>

theorem instance_iff_loaded_counterexample:
  "reachable loaded_world \<and>
   fst (unload_model_begin DESIGN_MODEL loaded_world) = Inr (False, 4) \<and>
   get_model DESIGN_MODEL (snd (unload_model_begin DESIGN_MODEL loaded_world)) = Some 4 \<and>
   state (store (snd (unload_model_begin DESIGN_MODEL loaded_world)) 4) = UNLOADING \<and>
   model_instance (store (snd (unload_model_begin DESIGN_MODEL loaded_world)) 4) =
     Some \<lparr>sample_rate = 24000\<rparr> \<and>
   \<not> instance_iff_loaded (store (snd (unload_model_begin DESIGN_MODEL loaded_world)) 4)"
  by (simp add: loaded_world_reachable loaded_world_unload_begin loaded_world_design
      instance_iff_loaded_def)

text \<open>
  C1, amended. In every world the server reaches between operations, every
  registered record has an instance exactly when its state is \<open>Loaded\<close>, and the same
  holds after the first critical section of \<^verbatim>\<open>load_model\<close> and after the second
  critical section of \<^verbatim>\<open>unload_model\<close> (the one that clears the instance). After
  the first critical section of \<^verbatim>\<open>unload_model\<close> a record has an instance exactly
  when its state is \<open>Loaded\<close> or \<open>Unloading\<close>.
\<close>

theorem instance_iff_loaded_points:
  assumes "reachable w"
  shows "(get_model m w = Some r \<longrightarrow> instance_iff_loaded (store w r)) \<and>
         (get_model m (snd (load_model_begin mid w)) = Some r \<longrightarrow>
            instance_iff_loaded (store (snd (load_model_begin mid w)) r)) \<and>
         (get_model m w = Some r \<longrightarrow>
            (model_instance (store (snd (unload_model_begin mid w)) r) \<noteq> None) =
            (state (store (snd (unload_model_begin mid w)) r) \<in> {LOADED, UNLOADING})) \<and>
         (get_model m w = Some r \<and> fst (unload_model_begin mid w) = Inr (False, r0) \<longrightarrow>
            instance_iff_loaded
              (store (snd (unload_model_clear mid
                 (call (GetMemoryMb mb) (snd (unload_model_begin mid w))))) r))"
proof -
  have ok: "registry_ok w" using assms by (rule reachable_ok)
  have ok1: "registry_ok (snd (load_model_begin mid w))" using ok by (rule registry_ok_load_begin)
  show ?thesis
    using registry_okD(2)[OF ok] registry_okD(2)[OF ok1] unload_window[OF ok] unload_cleared[OF ok]
    by blast
qed

theorem instance_iff_loaded_points_witness:
  "reachable loaded_world \<and>
   get_model DESIGN_MODEL loaded_world = Some 4 \<and>
   instance_iff_loaded (store loaded_world 4) \<and>
   get_model DESIGN_MODEL (snd (load_model_begin DESIGN_MODEL loaded_world)) = Some 4 \<and>
   instance_iff_loaded (store (snd (load_model_begin DESIGN_MODEL loaded_world)) 4) \<and>
   fst (unload_model_begin DESIGN_MODEL loaded_world) = Inr (False, 4) \<and>
   instance_iff_loaded
     (store (snd (unload_model_clear DESIGN_MODEL
        (call (GetMemoryMb 2560) (snd (unload_model_begin DESIGN_MODEL loaded_world))))) 4)"
proof -
  have g: "get_model DESIGN_MODEL (snd (load_model_begin DESIGN_MODEL loaded_world)) = Some 4"
    by (simp add: get_model_load_begin get_model_ensure loaded_world_design)
  have u: "fst (unload_model_begin DESIGN_MODEL loaded_world) = Inr (False, 4)"
    by (simp add: loaded_world_unload_begin)
  from instance_iff_loaded_points[OF loaded_world_reachable, of DESIGN_MODEL 4 DESIGN_MODEL 4 2560]
    loaded_world_reachable loaded_world_design(1) g u
  show ?thesis by blast
qed

text \<open>
  C2, as the claim states it, fails: what \<^verbatim>\<open>get_model\<close> returned for the design model
  before a load (and what \<^verbatim>\<open>get_all_models\<close> listed) is the registry's own object; read
  again after the first critical section of \<^verbatim>\<open>load_model\<close> it shows \<open>Loading\<close>, and
  after the load \<open>Loaded\<close>, where it showed \<open>Unloaded\<close> when it was returned.
\<close>

theorem queries_return_references_counterexample:
  "get_model DESIGN_MODEL registry_init = Some 4 \<and>
   4 \<in> set (get_all_models registry_init) \<and>
   state (store registry_init 4) = UNLOADED \<and>
   state (store (snd (load_model_begin DESIGN_MODEL registry_init)) 4) = LOADING \<and>
   state (store (snd (load_model DESIGN_MODEL example_env registry_init)) 4) = LOADED"
  using loaded_world_design get_model_get_all[OF registry_init_design(1)]
  by (simp add: registry_init_design registry_init_begin ModelInfo_new_def loaded_world_def)

text \<open>
  C2, amended. \<^verbatim>\<open>get_model\<close> returns the registry's own record object and
  \<^verbatim>\<open>get_all_models\<close> a new list of the registry's own record objects, not copies;
  \<^verbatim>\<open>load_model\<close> and \<^verbatim>\<open>unload_model\<close> never replace the object registered for an
  identifier, neither between their critical sections nor at their end, so what a
  query returned stays the record that later loads and unloads mutate. The list of a
  later \<^verbatim>\<open>get_all_models\<close> holds the same objects, with the record that
  \<^verbatim>\<open>load_model\<close> created added at the end.
\<close>

theorem queries_return_references:
  assumes "get_model m w = Some r"
  shows "r \<in> set (get_all_models w) \<and>
         get_model m (snd (load_model_begin mid w)) = Some r \<and>
         get_model m (snd (load_model mid env w)) = Some r \<and>
         get_model m (snd (unload_model_begin mid w)) = Some r \<and>
         get_model m (snd (unload_model mid uenv w)) = Some r \<and>
         get_all_models (snd (load_model mid env w)) =
           get_all_models w @ (if get_model mid w = None then [next_ref w] else []) \<and>
         get_all_models (snd (unload_model mid uenv w)) = get_all_models w"
proof -
  have "get_model m (ensure_registered mid w) = Some r"
    using assms by (auto simp: get_model_ensure)
  then show ?thesis
    using assms get_model_get_all[OF assms]
    by (simp add: get_model_def get_all_models_def models_load models_load_begin
        models_unload models_unload_begin models_ensure)
qed

theorem queries_return_references_witness:
  "get_model DESIGN_MODEL registry_init = Some 4 \<and>
   4 \<in> set (get_all_models registry_init) \<and>
   get_model DESIGN_MODEL (snd (load_model_begin DESIGN_MODEL registry_init)) = Some 4 \<and>
   get_model DESIGN_MODEL (snd (load_model DESIGN_MODEL example_env registry_init)) = Some 4 \<and>
   get_model DESIGN_MODEL (snd (unload_model DESIGN_MODEL example_uenv registry_init)) = Some 4"
  using queries_return_references[OF registry_init_design(1), of DESIGN_MODEL example_env example_uenv]
    registry_init_design(1)
  by simp

text \<open>
  C3, as the claim states it, fails on two inputs. A loader that raises an exception
  that is not a \<^verbatim>\<open>RuntimeError\<close> passes the handler by: the record stays in
  \<open>Loading\<close> with no message, and a following \<^verbatim>\<open>load_model\<close> returns at once without
  loading. A loader that raises \<^verbatim>\<open>RuntimeError()\<close> leaves the empty message.
\<close>

theorem load_failure_counterexample:
  "get_model DESIGN_MODEL registry_init = Some 4 \<and>
   fst (load_model DESIGN_MODEL oserror_env registry_init) = Inl (OSError ''Repository Not Found'') \<and>
   state (store (snd (load_model DESIGN_MODEL oserror_env registry_init)) 4) = LOADING \<and>
   error_message (store (snd (load_model DESIGN_MODEL oserror_env registry_init)) 4) = None \<and>
   state (store (snd (load_model DESIGN_MODEL example_env
                        (snd (load_model DESIGN_MODEL oserror_env registry_init)))) 4) = LOADING \<and>
   state (store (snd (load_model DESIGN_MODEL silent_env registry_init)) 4) = ERROR \<and>
   error_message (store (snd (load_model DESIGN_MODEL silent_env registry_init)) 4) = Some []"
proof -
  have o: "load_result oserror_env = Inl (OSError ''Repository Not Found'')"
    by (simp add: oserror_env_def)
  have eq: "load_model DESIGN_MODEL oserror_env registry_init =
      (Inl (OSError ''Repository Not Found''),
       call (LoadModel DESIGN_MODEL) (call (TimeTime (load_start_time oserror_env))
         (call (GetMemoryMb (load_memory_before oserror_env))
           (snd (load_model_begin DESIGN_MODEL registry_init)))))"
    by (rule load_model_other_error[OF registry_init_proceeds(1) o]) simp
  have s: "load_result silent_env = Inl (RuntimeError [])"
    by (simp add: silent_env_def)
  note eq2 = load_model_runtime_error[OF registry_init_proceeds s]
  have g: "get_model DESIGN_MODEL (snd (load_model DESIGN_MODEL oserror_env registry_init)) = Some 4"
    by (simp add: eq registry_init_begin registry_init_design)
  have l: "state (store (snd (load_model DESIGN_MODEL oserror_env registry_init)) 4) = LOADING"
    by (simp add: eq registry_init_begin)
  have "load_model DESIGN_MODEL example_env (snd (load_model DESIGN_MODEL oserror_env registry_init))
      = (Inr 4, snd (load_model DESIGN_MODEL oserror_env registry_init))"
    using load_model_returns[of DESIGN_MODEL "snd (load_model DESIGN_MODEL oserror_env registry_init)" example_env]
    by (simp add: load_proceeds_def g l)
  then show ?thesis
    using l by (simp add: eq eq2 registry_init_begin registry_init_design ModelInfo_new_def)
qed

text \<open>
  C3, amended. When \<^verbatim>\<open>load_model\<close> goes on to the external loader and the loader
  raises a \<^verbatim>\<open>RuntimeError\<close> with message \<open>msg\<close> (possibly empty), the same error is
  raised to the caller, the record ends in state \<open>Error\<close> with \<open>error_message = msg\<close>,
  no other field of it and no other record is changed, the instance is absent (in
  every world the server reaches between operations), and a following
  \<^verbatim>\<open>load_model\<close> on the identifier goes on to the loader again and, if the loader
  succeeds, ends in \<open>Loaded\<close>.
\<close>

theorem load_failure:
  assumes "load_proceeds mid w" and "get_model mid (ensure_registered mid w) = Some r"
    and "load_result env = Inl (RuntimeError msg)"
  shows "fst (load_model mid env w) = Inl (RuntimeError msg) \<and>
         get_model mid (snd (load_model mid env w)) = Some r \<and>
         store (snd (load_model mid env w)) =
           (store (ensure_registered mid w))
             (r := (store (ensure_registered mid w) r)\<lparr>state := ERROR, error_message := Some msg\<rparr>) \<and>
         (reachable w \<longrightarrow> model_instance (store (snd (load_model mid env w)) r) = None) \<and>
         load_proceeds mid (snd (load_model mid env w)) \<and>
         (load_result env2 = Inr model \<longrightarrow>
            fst (load_model mid env2 (snd (load_model mid env w))) = Inr r \<and>
            state (store (snd (load_model mid env2 (snd (load_model mid env w)))) r) = LOADED)"
proof -
  let ?w0 = "ensure_registered mid w"
  let ?w' = "snd (load_model mid env w)"
  note eq = load_model_runtime_error[OF assms]
  have g: "get_model mid ?w' = Some r"
    by (simp add: get_model_load assms(2))
  have st: "store ?w' = (store ?w0)(r := (store ?w0 r)\<lparr>state := ERROR, error_message := Some msg\<rparr>)"
    by (simp add: eq load_model_begin_proceeds[OF assms(1,2)] fun_eq_iff)
  have inst: "model_instance (store ?w' r) = None" if "reachable w"
  proof -
    have "registry_ok ?w0" using that by (simp add: reachable_ok registry_ok_ensure)
    from registry_ok_idle[OF this assms(2)] load_proceeds_ensure[OF assms(1,2)]
    show ?thesis by (simp add: st)
  qed
  have p: "load_proceeds mid ?w'"
    by (simp add: load_proceeds_def g st)
  have g': "get_model mid (ensure_registered mid ?w') = Some r"
    by (simp add: get_model_ensure g)
  have again: "fst (load_model mid env2 ?w') = Inr r \<and>
      state (store (snd (load_model mid env2 ?w')) r) = LOADED" if "load_result env2 = Inr model"
    by (simp add: load_model_success[OF p g' that])
  show ?thesis using g st inst p again by (simp add: eq)
qed

theorem load_failure_witness:
  "load_proceeds DESIGN_MODEL registry_init \<and>
   get_model DESIGN_MODEL (ensure_registered DESIGN_MODEL registry_init) = Some 4 \<and>
   load_result failing_env = Inl (RuntimeError ''out of memory'') \<and>
   fst (load_model DESIGN_MODEL failing_env registry_init) = Inl (RuntimeError ''out of memory'') \<and>
   state (store (snd (load_model DESIGN_MODEL failing_env registry_init)) 4) = ERROR \<and>
   error_message (store (snd (load_model DESIGN_MODEL failing_env registry_init)) 4) = Some ''out of memory'' \<and>
   reachable registry_init \<and>
   model_instance (store (snd (load_model DESIGN_MODEL failing_env registry_init)) 4) = None \<and>
   load_result example_env = Inr \<lparr>sample_rate = 24000\<rparr> \<and>
   state (store (snd (load_model DESIGN_MODEL example_env
                        (snd (load_model DESIGN_MODEL failing_env registry_init)))) 4) = LOADED"
proof -
  have f: "load_result failing_env = Inl (RuntimeError ''out of memory'')"
    by (simp add: failing_env_def)
  have h: "load_result example_env = Inr \<lparr>sample_rate = 24000\<rparr>"
    by (simp add: example_env_def)
  show ?thesis
    using load_failure[OF registry_init_proceeds f, of example_env "\<lparr>sample_rate = 24000\<rparr>"]
      registry_init_proceeds f h reachable.init
    by (elim conjE) (simp add: ensure_registered_def dict_contains_get registry_init_design
        ModelInfo_new_def)
qed

text \<open>
  C4, as the claim states it, fails: \<^verbatim>\<open>unload_model\<close> on an identifier that is not
  registered raises \<^verbatim>\<open>ValueError("Unknown model: C")\<close> and creates nothing.
\<close>

theorem unknown_id_counterexample:
  "get_model ''C'' registry_init = None \<and>
   unload_model ''C'' example_uenv registry_init =
     (Inl (ValueError ''Unknown model: C''), registry_init)"
  using unload_model_unknown[OF registry_init_unknown, of example_uenv]
  by (simp add: registry_init_unknown)

text \<open>
  C4, amended. For an identifier that is not registered, \<^verbatim>\<open>unload_model\<close> is rejected
  with \<^verbatim>\<open>ValueError\<close> and leaves the world as it was, while \<^verbatim>\<open>load_model\<close> is
  accepted: it behaves exactly as on the world in which the identifier had been
  registered beforehand with a fresh \<open>Unloaded\<close> record, so the record it creates
  follows the transitions of a catalog identifier, and it stays registered.
\<close>

theorem unknown_id:
  assumes "get_model mid w = None"
  shows "unload_model mid uenv w = (Inl (ValueError (''Unknown model: '' @ mid)), w) \<and>
         load_model mid env w = load_model mid env (register mid w) \<and>
         get_model mid (register mid w) = Some (next_ref w) \<and>
         store (register mid w) (next_ref w) = ModelInfo_new mid \<and>
         fst (load_model_begin mid w) = Inr (False, next_ref w) \<and>
         get_model mid (snd (load_model mid env w)) = Some (next_ref w)"
  using assms load_model_register[OF assms, of env]
  by (simp add: unload_model_unknown get_model_register store_register load_begin_new
      get_model_load get_model_ensure)

theorem unknown_id_witness:
  "get_model ''C'' registry_init = None \<and>
   unload_model ''C'' example_uenv registry_init =
     (Inl (ValueError ''Unknown model: C''), registry_init) \<and>
   fst (load_model_begin ''C'' registry_init) = Inr (False, 5) \<and>
   get_model ''C'' (snd (load_model ''C'' example_env registry_init)) = Some 5"
  using unknown_id[OF registry_init_unknown, of example_uenv example_env]
  by (elim conjE) (simp add: registry_init_unknown registry_init_design)

text \<open>
  C5. When the record of an identifier is in state \<open>Loaded\<close> (and likewise \<open>Loading\<close>),
  \<^verbatim>\<open>load_model\<close> is a no-op: it returns the existing record, and the world it leaves is
  the world it found, so no field of any record (in particular \<open>load_time_seconds\<close>)
  is altered and nothing is added to the log of external calls: the external loader is
  not invoked again, whatever it would have answered.
\<close>

theorem load_model_idempotent:
  assumes "get_model mid w = Some r"
    and "state (store w r) = LOADED \<or> state (store w r) = LOADING"
  shows "load_model mid env w = (Inr r, w) \<and>
         store (snd (load_model mid env w)) = store w \<and>
         calls (snd (load_model mid env w)) = calls w \<and>
         load_model mid env' (snd (load_model mid env w)) = (Inr r, w)"
  using assms by (simp add: load_model_def load_begin_noop)

theorem load_model_idempotent_witness:
  "get_model DESIGN_MODEL loaded_world = Some 4 \<and> state (store loaded_world 4) = LOADED \<and>
   load_model DESIGN_MODEL failing_env loaded_world = (Inr 4, loaded_world) \<and>
   load_time_seconds (store (snd (load_model DESIGN_MODEL failing_env loaded_world)) 4) = Some 3"
  using load_model_idempotent[of DESIGN_MODEL loaded_world 4 failing_env]
  by (simp add: loaded_world_design)

text \<open>
  C6. Every record of the initial registry is \<open>Unloaded\<close>, and so is every record as
  \<^verbatim>\<open>ModelInfo\<close> creates it. From a world the server reaches between operations,
  \<^verbatim>\<open>load_model\<close> and \<^verbatim>\<open>unload_model\<close> keep every registered identifier registered
  with the same record, and each of their critical sections either leaves the state
  of a record or moves it along one of the six listed transitions (\<open>state_step\<close>):
  for \<^verbatim>\<open>unload_model\<close> from the world before to the world after the first section,
  unchanged by the clearing section, and on to the final world; for \<^verbatim>\<open>load_model\<close>
  from the record as found (or as created, for an identifier not registered before)
  to the world after the first section, and on to the final world.
\<close>

theorem only_listed_transitions:
  assumes "reachable w"
  shows "(get_model m registry_init = Some r \<longrightarrow> state (store registry_init r) = UNLOADED) \<and>
         state (ModelInfo_new mid) = UNLOADED \<and>
         (get_model m w = Some r \<longrightarrow>
            get_model m (snd (load_model mid env w)) = Some r \<and>
            get_model m (snd (unload_model mid uenv w)) = Some r \<and>
            state_step (state (store w r)) (state (store (snd (unload_model_begin mid w)) r)) \<and>
            state (store (snd (unload_model_clear mid w2)) r) = state (store w2 r) \<and>
            state_step (state (store (snd (unload_model_begin mid w)) r))
              (state (store (snd (unload_model mid uenv w)) r))) \<and>
         (get_model m (ensure_registered mid w) = Some r \<longrightarrow>
            store (ensure_registered mid w) r =
              (if get_model m w = None then ModelInfo_new mid else store w r) \<and>
            state_step (state (store (ensure_registered mid w) r))
              (state (store (snd (load_model_begin mid w)) r)) \<and>
            state_step (state (store (snd (load_model_begin mid w)) r))
              (state (store (snd (load_model mid env w)) r)))"
proof -
  have ok: "registry_ok w" using assms by (rule reachable_ok)
  have kept: "get_model m (snd (load_model mid env w)) = Some r \<and>
      get_model m (snd (unload_model mid uenv w)) = Some r" if "get_model m w = Some r"
    using that by (auto simp: get_model_load get_model_unload get_model_ensure)
  show ?thesis
    using registry_init_unloaded[of m r] kept unload_steps[of w r mid uenv]
      unload_clear_state[of mid w2 r] store_ensure[OF ok, of m mid r]
      load_begin_step[OF ok, of m mid r] load_finish_step[OF ok, of mid r env]
    by (simp add: ModelInfo_new_def)
qed

theorem only_listed_transitions_witness:
  "reachable loaded_world \<and> reachable registry_init \<and>
   get_model DESIGN_MODEL registry_init = Some 4 \<and> state (store registry_init 4) = UNLOADED \<and>
   get_model DESIGN_MODEL loaded_world = Some 4 \<and>
   get_model DESIGN_MODEL (snd (unload_model DESIGN_MODEL example_uenv loaded_world)) = Some 4 \<and>
   state_step (state (store loaded_world 4))
     (state (store (snd (unload_model_begin DESIGN_MODEL loaded_world)) 4)) \<and>
   state_step (state (store (snd (unload_model_begin DESIGN_MODEL loaded_world)) 4))
     (state (store (snd (unload_model DESIGN_MODEL example_uenv loaded_world)) 4)) \<and>
   get_model ''C'' registry_init = None \<and>
   get_model ''C'' (ensure_registered ''C'' registry_init) = Some 5 \<and>
   store (ensure_registered ''C'' registry_init) 5 = ModelInfo_new ''C'' \<and>
   state_step (state (store (ensure_registered ''C'' registry_init) 5))
     (state (store (snd (load_model_begin ''C'' registry_init)) 5)) \<and>
   state_step (state (store (snd (load_model_begin ''C'' registry_init)) 5))
     (state (store (snd (load_model ''C'' failing_env registry_init)) 5))"
proof -
  have c: "get_model ''C'' (ensure_registered ''C'' registry_init) = Some 5"
    by (simp add: get_model_ensure registry_init_unknown registry_init_design)
  have A: "state (store registry_init 4) = UNLOADED \<and>
     get_model DESIGN_MODEL (snd (unload_model DESIGN_MODEL example_uenv loaded_world)) = Some 4 \<and>
     state_step (state (store loaded_world 4))
       (state (store (snd (unload_model_begin DESIGN_MODEL loaded_world)) 4)) \<and>
     state_step (state (store (snd (unload_model_begin DESIGN_MODEL loaded_world)) 4))
       (state (store (snd (unload_model DESIGN_MODEL example_uenv loaded_world)) 4))"
    using only_listed_transitions[OF loaded_world_reachable, of DESIGN_MODEL 4 DESIGN_MODEL
        example_env example_uenv loaded_world]
      registry_init_design(1) loaded_world_design(1)
    by blast
  have "store (ensure_registered ''C'' registry_init) 5 =
       (if get_model ''C'' registry_init = None then ModelInfo_new ''C'' else store registry_init 5) \<and>
     state_step (state (store (ensure_registered ''C'' registry_init) 5))
       (state (store (snd (load_model_begin ''C'' registry_init)) 5)) \<and>
     state_step (state (store (snd (load_model_begin ''C'' registry_init)) 5))
       (state (store (snd (load_model ''C'' failing_env registry_init)) 5))"
    using only_listed_transitions[OF reachable.init, of "''C''" 5 "''C''" failing_env example_uenv
        registry_init] c
    by blast
  note t = this
  have e: "(if get_model ''C'' registry_init = None then ModelInfo_new ''C''
            else store registry_init 5) = ModelInfo_new ''C''"
    by (simp add: registry_init_unknown)
  have B: "store (ensure_registered ''C'' registry_init) 5 = ModelInfo_new ''C'' \<and>
     state_step (state (store (ensure_registered ''C'' registry_init) 5))
       (state (store (snd (load_model_begin ''C'' registry_init)) 5)) \<and>
     state_step (state (store (snd (load_model_begin ''C'' registry_init)) 5))
       (state (store (snd (load_model ''C'' failing_env registry_init)) 5))"
    using t unfolding e .
  from A B loaded_world_reachable reachable.init registry_init_design(1) loaded_world_design(1)
    registry_init_unknown c
  show ?thesis by blast
qed

text \<open>
  C7. When the record of a registered identifier is in any state but \<open>Loaded\<close>,
  \<^verbatim>\<open>unload_model\<close> is a no-op: it returns the current record and leaves the world,
  hence every field of every record, as it was.
\<close>

theorem unload_model_noop:
  assumes "get_model mid w = Some r"
    and "state (store w r) \<noteq> LOADED"
  shows "unload_model mid uenv w = (Inr r, w)"
  using assms by (rule unload_model_not_loaded)

theorem unload_model_noop_witness:
  "get_model DESIGN_MODEL failed_world = Some 4 \<and> state (store failed_world 4) \<noteq> LOADED \<and>
   unload_model DESIGN_MODEL example_uenv failed_world = (Inr 4, failed_world)"
  using unload_model_noop[of DESIGN_MODEL failed_world 4 example_uenv]
  by (simp add: failed_world_design)

text \<open>
  C8. When \<^verbatim>\<open>load_model\<close> goes on to the external loader and the loader succeeds, the
  method returns the record of the identifier in state \<open>Loaded\<close>, holding the loaded
  instance, with \<open>memory_before_mb\<close> the sample taken before the external call,
  \<open>memory_after_mb\<close> the sample taken after it, \<open>memory_delta_mb\<close> their difference
  and \<open>load_time_seconds\<close> the clock reading after the call minus the one before it.
  The log of external calls shows the order: memory, clock, loader, clock, memory.
\<close>

theorem load_model_success_record:
  assumes "load_proceeds mid w" and "load_result env = Inr model"
  shows "\<exists>r. fst (load_model mid env w) = Inr r \<and>
           get_model mid (snd (load_model mid env w)) = Some r \<and>
           state (store (snd (load_model mid env w)) r) = LOADED \<and>
           model_instance (store (snd (load_model mid env w)) r) = Some model \<and>
           memory_before_mb (store (snd (load_model mid env w)) r) = Some (load_memory_before env) \<and>
           memory_after_mb (store (snd (load_model mid env w)) r) = Some (load_memory_after env) \<and>
           memory_delta_mb (store (snd (load_model mid env w)) r) =
             Some (load_memory_after env - load_memory_before env) \<and>
           load_time_seconds (store (snd (load_model mid env w)) r) =
             Some (load_end_time env - load_start_time env) \<and>
           calls (snd (load_model mid env w)) =
             calls w @ [GetMemoryMb (load_memory_before env), TimeTime (load_start_time env),
                        LoadModel mid, TimeTime (load_end_time env),
                        GetMemoryMb (load_memory_after env)]"
proof -
  obtain r where r: "get_model mid (ensure_registered mid w) = Some r"
    using ensure_registered_ex by blast
  show ?thesis
    unfolding load_model_success[OF assms(1) r assms(2)]
    by (rule exI[of _ r]) (simp add: load_model_begin_state[OF assms(1) r] r)
qed

theorem load_model_success_record_witness:
  "load_proceeds DESIGN_MODEL registry_init \<and>
   load_result example_env = Inr \<lparr>sample_rate = 24000\<rparr> \<and>
   (\<exists>r. fst (load_model DESIGN_MODEL example_env registry_init) = Inr r \<and>
      state (store (snd (load_model DESIGN_MODEL example_env registry_init)) r) = LOADED \<and>
      memory_before_mb (store (snd (load_model DESIGN_MODEL example_env registry_init)) r) = Some 512 \<and>
      memory_after_mb (store (snd (load_model DESIGN_MODEL example_env registry_init)) r) = Some 2560 \<and>
      memory_delta_mb (store (snd (load_model DESIGN_MODEL example_env registry_init)) r) = Some 2048 \<and>
      load_time_seconds (store (snd (load_model DESIGN_MODEL example_env registry_init)) r) = Some 3)"
proof -
  have h: "load_result example_env = Inr \<lparr>sample_rate = 24000\<rparr>"
    by (simp add: example_env_def)
  show ?thesis
    using load_model_success_record[OF registry_init_proceeds(1) h] registry_init_proceeds(1) h
    by (auto simp: example_env_def)
qed

text \<open>
  C9. In each of the three generation endpoints (clone, control, design), when the
  target record is absent or its state is not \<open>Loaded\<close>, the request fails with
  \<^verbatim>\<open>HTTPException(400)\<close> and the world is untouched: no call to the generator or to
  the audio writer has been made. Conversely, an endpoint that made any external call
  found its target record registered and in state \<open>Loaded\<close>.
\<close>

theorem generation_requires_loaded:
  "(\<not> target_loaded (clone_model_id creq) w \<longrightarrow>
      generate_clone creq gen w =
        (Inl (HTTPException 400 (''Model '' @ clone_model_id creq @ '' not loaded'')), w)) \<and>
   (\<not> target_loaded (control_model_id treq) w \<longrightarrow>
      generate_control treq gen w =
        (Inl (HTTPException 400 (''Model '' @ control_model_id treq @ '' not loaded'')), w)) \<and>
   (\<not> target_loaded DESIGN_MODEL w \<longrightarrow>
      generate_design dreq gen w = (Inl (HTTPException 400 ''VoiceDesign model not loaded''), w)) \<and>
   (calls (snd (generate_clone creq gen w)) \<noteq> calls w \<longrightarrow>
      target_loaded (clone_model_id creq) w) \<and>
   (calls (snd (generate_control treq gen w)) \<noteq> calls w \<longrightarrow>
      target_loaded (control_model_id treq) w) \<and>
   (calls (snd (generate_design dreq gen w)) \<noteq> calls w \<longrightarrow> target_loaded DESIGN_MODEL w)"
proof -
  have 1: "generate_clone creq gen w =
        (Inl (HTTPException 400 (''Model '' @ clone_model_id creq @ '' not loaded'')), w)"
    if "\<not> target_loaded (clone_model_id creq) w"
    using that by (simp add: target_loaded_def generate_clone_def split: option.splits)
  have 2: "generate_control treq gen w =
        (Inl (HTTPException 400 (''Model '' @ control_model_id treq @ '' not loaded'')), w)"
    if "\<not> target_loaded (control_model_id treq) w"
    using that by (simp add: target_loaded_def generate_control_def split: option.splits)
  have 3: "generate_design dreq gen w = (Inl (HTTPException 400 ''VoiceDesign model not loaded''), w)"
    if "\<not> target_loaded DESIGN_MODEL w"
    using that by (simp add: target_loaded_def generate_design_def split: option.splits)
  from 1 2 3 show ?thesis by fastforce
qed

theorem generation_requires_loaded_witness:
  "\<not> target_loaded DESIGN_MODEL registry_init \<and>
   generate_clone example_clone_request (Inr [[0, 1]]) registry_init =
     (Inl (HTTPException 400 (''Model '' @ DESIGN_MODEL @ '' not loaded'')), registry_init) \<and>
   generate_control example_control_request (Inr [[0, 1]]) registry_init =
     (Inl (HTTPException 400 (''Model '' @ DESIGN_MODEL @ '' not loaded'')), registry_init) \<and>
   generate_design example_design_request (Inr [[0, 1]]) registry_init =
     (Inl (HTTPException 400 ''VoiceDesign model not loaded''), registry_init) \<and>
   calls (snd (generate_clone example_clone_request (Inr [[0, 1]]) loaded_world))
     \<noteq> calls loaded_world \<and>
   calls (snd (generate_control example_control_request (Inr [[0, 1]]) loaded_world))
     \<noteq> calls loaded_world \<and>
   calls (snd (generate_design example_design_request (Inr [[0, 1]]) loaded_world))
     \<noteq> calls loaded_world \<and>
   target_loaded DESIGN_MODEL loaded_world"
proof -
  have a: "clone_model_id example_clone_request = DESIGN_MODEL"
    and b: "control_model_id example_control_request = DESIGN_MODEL"
    by (simp_all add: example_clone_request_def example_control_request_def)
  note n = target_loaded_examples(1)
  note c = generate_loaded_calls[of "Inr [[0, 1]]"]
  from generation_requires_loaded[of example_clone_request registry_init "Inr [[0, 1]]"
      example_control_request example_design_request]
    generation_requires_loaded[of example_clone_request loaded_world "Inr [[0, 1]]"
      example_control_request example_design_request]
  show ?thesis unfolding a b using n c by blast
qed

text \<open>
  C10. When \<^verbatim>\<open>load_model\<close> moves a record into \<open>Loading\<close>, the same critical section
  sets its \<open>error_message\<close> to \<^verbatim>\<open>None\<close>; a load that then succeeds leaves it
  \<^verbatim>\<open>None\<close>, so the message of an earlier failure is gone from the loaded record.
\<close>

theorem load_model_clears_error:
  assumes "load_proceeds mid w" and "get_model mid (ensure_registered mid w) = Some r"
  shows "state (store (snd (load_model_begin mid w)) r) = LOADING \<and>
         error_message (store (snd (load_model_begin mid w)) r) = None \<and>
         (load_result env = Inr model \<longrightarrow>
            state (store (snd (load_model mid env w)) r) = LOADED \<and>
            error_message (store (snd (load_model mid env w)) r) = None)"
  using assms
  by (auto simp: load_model_success load_model_begin_state)

theorem load_model_clears_error_witness:
  "load_proceeds DESIGN_MODEL failed_world \<and>
   get_model DESIGN_MODEL (ensure_registered DESIGN_MODEL failed_world) = Some 4 \<and>
   error_message (store failed_world 4) = Some ''out of memory'' \<and>
   error_message (store (snd (load_model_begin DESIGN_MODEL failed_world)) 4) = None \<and>
   load_result example_env = Inr \<lparr>sample_rate = 24000\<rparr> \<and>
   state (store (snd (load_model DESIGN_MODEL example_env failed_world)) 4) = LOADED \<and>
   error_message (store (snd (load_model DESIGN_MODEL example_env failed_world)) 4) = None"
proof -
  have p: "load_proceeds DESIGN_MODEL failed_world"
    by (simp add: load_proceeds_def failed_world_design)
  have g: "get_model DESIGN_MODEL (ensure_registered DESIGN_MODEL failed_world) = Some 4"
    by (simp add: get_model_ensure failed_world_design)
  have h: "load_result example_env = Inr \<lparr>sample_rate = 24000\<rparr>"
    by (simp add: example_env_def)
  show ?thesis
    using load_model_clears_error[OF p g, of example_env "\<lparr>sample_rate = 24000\<rparr>"] p g h
    by (simp add: failed_world_design)
qed

end
